theory Spec2Isabelle
  imports Complex_Main
begin

section \<open>Python values used by \<open>housing_search.py\<close>\<close>

text \<open>
  A Python \<open>str\<close> is a sequence of code points. It is modelled as a \<open>string\<close> whose
  characters are the code points below 256 (\<open>of_char c\<close> is the code point), which covers
  every character the program itself writes: the superscript two of the area unit is
  \<open>CHR 0xB2\<close> and the ligature of the Danish room word is \<open>CHR 0xE6\<close>.
\<close>

abbreviation newline :: char where
  "newline \<equiv> CHR 0x0A"

abbreviation superscript_two :: char where
  "superscript_two \<equiv> CHR 0xB2"

abbreviation ae_ligature :: char where
  "ae_ligature \<equiv> CHR 0xE6"

text \<open>The character class \<open>\d\<close> of \<open>re\<close> on code points below 256: the ten ASCII digits.\<close>

definition is_digit :: "char \<Rightarrow> bool" where
  "is_digit c = (let n = (of_char c :: nat) in 48 \<le> n \<and> n \<le> 57)"

text \<open>The character class \<open>\s\<close> of \<open>re\<close> on code points below 256.\<close>

definition is_space :: "char \<Rightarrow> bool" where
  "is_space c = ((of_char c :: nat) \<in> set [9, 10, 11, 12, 13, 28, 29, 30, 31, 32, 133, 160])"

text \<open>Lower-casing of one code point below 256, as \<open>str.lower\<close> and \<open>re.IGNORECASE\<close> do it.\<close>

definition lower_code :: "nat \<Rightarrow> nat" where
  "lower_code n =
     (if (65 \<le> n \<and> n \<le> 90) \<or> (192 \<le> n \<and> n \<le> 222 \<and> n \<noteq> 215) then n + 32 else n)"

definition py_lower_char :: "char \<Rightarrow> char" where
  "py_lower_char c = char_of (lower_code (of_char c))"

definition py_lower :: "string \<Rightarrow> string" where
  "py_lower s = map py_lower_char s"

text \<open>\<open>s.replace(a, b)\<close> for one-character \<open>a\<close> and \<open>b\<close>.\<close>

definition replace_char :: "char \<Rightarrow> char \<Rightarrow> string \<Rightarrow> string" where
  "replace_char a b s = map (\<lambda>c. if c = a then b else c) s"

text \<open>\<open>s.replace(a, '')\<close> for a one-character \<open>a\<close>.\<close>

definition remove_char :: "char \<Rightarrow> string \<Rightarrow> string" where
  "remove_char a s = filter (\<lambda>c. c \<noteq> a) s"

text \<open>\<open>s.startswith(p)\<close>.\<close>

definition startswith :: "string \<Rightarrow> string \<Rightarrow> bool" where
  "startswith s p = (take (length p) s = p)"

text \<open>\<open>needle in hay\<close> on two strings.\<close>

fun str_in :: "string \<Rightarrow> string \<Rightarrow> bool" where
  "str_in needle [] = (needle = [])"
| "str_in needle (c # cs) = (startswith (c # cs) needle \<or> str_in needle cs)"

text \<open>\<open>s.split('\n')[0]\<close>: the text before the first line feed.\<close>

definition first_line :: "string \<Rightarrow> string" where
  "first_line s = takeWhile (\<lambda>c. c \<noteq> newline) s"

text \<open>\<open>sep.join(parts)\<close>.\<close>

fun join :: "string \<Rightarrow> string list \<Rightarrow> string" where
  "join sep [] = []"
| "join sep [p] = p"
| "join sep (p # q # ps) = p @ sep @ join sep (q # ps)"

subsection \<open>Decimal numerals\<close>

definition digit_char :: "nat \<Rightarrow> char" where
  "digit_char d = char_of (48 + d)"

fun str_nat :: "nat \<Rightarrow> string" where
  "str_nat n = (if n < 10 then [digit_char n] else str_nat (n div 10) @ [digit_char (n mod 10)])"

text \<open>The decimal text of an \<open>int\<close>: what \<open>str(i)\<close> and an f-string write when they return.\<close>

definition str_int :: "int \<Rightarrow> string" where
  "str_int i = (if i < 0 then CHR ''-'' # str_nat (nat (- i)) else str_nat (nat i))"

text \<open>The number a string of ASCII digits denotes.\<close>

definition digits_value :: "string \<Rightarrow> nat" where
  "digits_value s = foldl (\<lambda>a c. 10 * a + ((of_char c :: nat) - 48)) 0 s"

subsection \<open>Floats\<close>

text \<open>
  A \<open>float\<close> is a finite double, given by its exact value, an infinity or a NaN
  (the two zeros are one value here: they compare and test alike).
\<close>

datatype pyfloat = Finite rat | PosInf | NegInf | NaN

fun bit_length :: "nat \<Rightarrow> nat" where
  "bit_length n = (if n = 0 then 0 else Suc (bit_length (n div 2)))"

text \<open>
  The double nearest to a natural number, ties to even, \<open>inf\<close> from \<open>2 ^ 1024\<close> on:
  what \<open>float\<close> returns for a string of digits.
\<close>

definition float_of_nat :: "nat \<Rightarrow> pyfloat" where
  "float_of_nat n =
     (let b = bit_length n
      in if b \<le> 53 then Finite (of_nat n)
         else let k = b - 53;
                  q = n div 2 ^ k;
                  r = n mod 2 ^ k;
                  half = 2 ^ (k - 1);
                  q' = (if half < r \<or> (r = half \<and> odd q) then q + 1 else q);
                  v = q' * 2 ^ k
              in if 2 ^ 1024 \<le> v then PosInf else Finite (of_nat v))"

text \<open>\<open>f > m\<close> and \<open>f < m\<close> for a float and an int: Python compares the exact values.\<close>

fun float_gt_int :: "pyfloat \<Rightarrow> int \<Rightarrow> bool" where
  "float_gt_int (Finite q) m = (of_int m < q)"
| "float_gt_int PosInf m = True"
| "float_gt_int NegInf m = False"
| "float_gt_int NaN m = False"

fun float_lt_int :: "pyfloat \<Rightarrow> int \<Rightarrow> bool" where
  "float_lt_int (Finite q) m = (q < of_int m)"
| "float_lt_int PosInf m = False"
| "float_lt_int NegInf m = True"
| "float_lt_int NaN m = False"

subsection \<open>Dynamically typed values and exceptions\<close>

text \<open>
  The values a crawled item and a listing dictionary can hold (\<open>Dict[str, Any]\<close>): what
  JSON decoding yields, with dictionaries as association lists in insertion order.
\<close>

datatype pyval =
    PNone
  | PBool bool
  | PInt int
  | PFloat pyfloat
  | PStr string
  | PList "pyval list"
  | PDict "(string \<times> pyval) list"

datatype pyexn = TypeError | AttributeError | ValueError | CrawlFailure

text \<open>
  The interpreter refuses to convert between an \<open>int\<close> and a decimal text of more than
  4300 digits, the sign not counted (\<open>sys.int_info.default_max_str_digits\<close>): \<open>str(i)\<close>,
  an f-string and \<open>int(s)\<close> raise \<open>ValueError\<close> there.
\<close>

definition max_str_digits :: nat where
  "max_str_digits = 4300"

definition py_str_int :: "int \<Rightarrow> pyexn + string" where
  "py_str_int i =
     (if max_str_digits < length (str_nat (nat \<bar>i\<bar>)) then Inl ValueError
      else Inr (str_int i))"

text \<open>\<open>d.get(key, default)\<close>.\<close>

definition dict_get :: "(string \<times> pyval) list \<Rightarrow> string \<Rightarrow> pyval \<Rightarrow> pyval" where
  "dict_get d k dflt = (case map_of d k of None \<Rightarrow> dflt | Some v \<Rightarrow> v)"

text \<open>The truth value of a value, as \<open>if v\<close>, \<open>not v\<close> and \<open>all\<close> take it.\<close>

fun truthy :: "pyval \<Rightarrow> bool" where
  "truthy PNone = False"
| "truthy (PBool b) = b"
| "truthy (PInt i) = (i \<noteq> 0)"
| "truthy (PFloat f) = (f \<noteq> Finite 0)"
| "truthy (PStr s) = (s \<noteq> [])"
| "truthy (PList xs) = (xs \<noteq> [])"
| "truthy (PDict d) = (d \<noteq> [])"

text \<open>\<open>v > m\<close> and \<open>v < m\<close> against an int: defined on numbers, a \<open>TypeError\<close> otherwise.\<close>

fun py_gt_int :: "pyval \<Rightarrow> int \<Rightarrow> pyexn + bool" where
  "py_gt_int (PBool b) m = Inr (m < (if b then 1 else 0))"
| "py_gt_int (PInt i) m = Inr (m < i)"
| "py_gt_int (PFloat f) m = Inr (float_gt_int f m)"
| "py_gt_int v m = Inl TypeError"

fun py_lt_int :: "pyval \<Rightarrow> int \<Rightarrow> pyexn + bool" where
  "py_lt_int (PBool b) m = Inr ((if b then 1 else 0) < m)"
| "py_lt_int (PInt i) m = Inr (i < m)"
| "py_lt_int (PFloat f) m = Inr (float_lt_int f m)"
| "py_lt_int v m = Inl TypeError"

section \<open>Regular expressions as \<open>re\<close> matches them\<close>

text \<open>
  The fragment of \<open>re\<close> syntax the three patterns use. \<open>rmatch ic r s\<close> lists what is left
  of \<open>s\<close> after each way \<open>r\<close> can match a prefix of it, in the order the backtracking
  matcher tries them: a greedy repetition takes one more round before it stops, an
  alternative tries its left branch first. \<open>ic\<close> is \<open>re.IGNORECASE\<close>.
\<close>

datatype rx = Eps | Chr char | Dig | Spc | Cat rx rx | Alt rx rx | Star rx | Opt rx | Times nat rx

fun rstar :: "(string \<Rightarrow> string list) \<Rightarrow> nat \<Rightarrow> string \<Rightarrow> string list" where
  "rstar m 0 s = [s]"
| "rstar m (Suc n) s =
     concat (map (rstar m n) (filter (\<lambda>t. length t < length s) (m s))) @ [s]"

fun rtimes :: "(string \<Rightarrow> string list) \<Rightarrow> nat \<Rightarrow> string \<Rightarrow> string list" where
  "rtimes m 0 s = [s]"
| "rtimes m (Suc n) s = concat (map (rtimes m n) (m s))"

primrec rmatch :: "bool \<Rightarrow> rx \<Rightarrow> string \<Rightarrow> string list" where
  "rmatch ic Eps = (\<lambda>s. [s])"
| "rmatch ic (Chr c) = (\<lambda>s. case s of [] \<Rightarrow> [] | x # xs \<Rightarrow>
       if (if ic then py_lower_char x = py_lower_char c else x = c) then [xs] else [])"
| "rmatch ic Dig = (\<lambda>s. case s of [] \<Rightarrow> [] | x # xs \<Rightarrow> if is_digit x then [xs] else [])"
| "rmatch ic Spc = (\<lambda>s. case s of [] \<Rightarrow> [] | x # xs \<Rightarrow> if is_space x then [xs] else [])"
| "rmatch ic (Cat a b) = (\<lambda>s. concat (map (rmatch ic b) (rmatch ic a s)))"
| "rmatch ic (Alt a b) = (\<lambda>s. rmatch ic a s @ rmatch ic b s)"
| "rmatch ic (Star a) = (\<lambda>s. rstar (rmatch ic a) (length s) s)"
| "rmatch ic (Opt a) = (\<lambda>s. rmatch ic a s @ [s])"
| "rmatch ic (Times n a) = (\<lambda>s. rtimes (rmatch ic a) n s)"

definition rx_lit :: "string \<Rightarrow> rx" where
  "rx_lit s = foldr (\<lambda>c r. Cat (Chr c) r) s Eps"

text \<open>
  A pattern of the shape \<open>(g)t\<close> tried at the start of \<open>s\<close>: the text of group 1 in the
  first way of matching \<open>g\<close> after which \<open>t\<close> matches too.
\<close>

definition rx_match_at :: "bool \<Rightarrow> rx \<Rightarrow> rx \<Rightarrow> string \<Rightarrow> string option" where
  "rx_match_at ic g t s =
     (case filter (\<lambda>r. rmatch ic t r \<noteq> []) (rmatch ic g s) of
        [] \<Rightarrow> None
      | r # _ \<Rightarrow> Some (take (length s - length r) s))"

text \<open>\<open>re.search\<close> for such a pattern: the leftmost start that matches; \<open>group(1)\<close> of it.\<close>

fun rx_search :: "bool \<Rightarrow> rx \<Rightarrow> rx \<Rightarrow> string \<Rightarrow> string option" where
  "rx_search ic g t [] = rx_match_at ic g t []"
| "rx_search ic g t (c # cs) =
     (case rx_match_at ic g t (c # cs) of
        Some m \<Rightarrow> Some m
      | None \<Rightarrow> rx_search ic g t cs)"

text \<open>\<open>(\d+(?:,\d{3})*(?:\.\d{2})?)\s*(?:DKK|kr\.)\<close>\<close>

definition price_group :: rx where
  "price_group =
     Cat (Cat Dig (Star Dig))
       (Cat (Star (Cat (Chr CHR '','') (Times 3 Dig)))
            (Opt (Cat (Chr CHR ''.'') (Times 2 Dig))))"

definition price_tail :: rx where
  "price_tail = Cat (Star Spc) (Alt (rx_lit ''DKK'') (rx_lit ''kr.''))"

text \<open>\<open>(\d+)\s*(?:room|rm|bedroom|vXrelser)\<close> with the ligature for \<open>X\<close>, under \<open>re.IGNORECASE\<close>\<close>

definition count_group :: rx where
  "count_group = Cat Dig (Star Dig)"

definition room_tail :: rx where
  "room_tail =
     Cat (Star Spc)
       (Alt (rx_lit ''room'')
         (Alt (rx_lit ''rm'')
           (Alt (rx_lit ''bedroom'')
                (rx_lit (CHR ''v'' # ae_ligature # ''relser'')))))"

text \<open>\<open>(\d+)\s*m\<close> followed by the superscript two\<close>

definition size_tail :: rx where
  "size_tail = Cat (Star Spc) (rx_lit [CHR ''m'', superscript_two])"

definition price_search :: "string \<Rightarrow> string option" where
  "price_search text = rx_search False price_group price_tail text"

definition room_search :: "string \<Rightarrow> string option" where
  "room_search text = rx_search True count_group room_tail text"

definition size_search :: "string \<Rightarrow> string option" where
  "size_search text = rx_search False count_group size_tail text"

text \<open>
  \<open>float(s)\<close> and \<open>int(s)\<close> on the strings the program passes: a non-empty string of
  digits is its number, anything else is a \<open>ValueError\<close>, and so is, for \<open>int\<close>, a string
  of more than 4300 digits. (Group 1 of the patterns holds digits, commas and full stops
  only.)
\<close>

definition py_float :: "string \<Rightarrow> pyexn + pyfloat" where
  "py_float s =
     (if s \<noteq> [] \<and> list_all is_digit s then Inr (float_of_nat (digits_value s))
      else Inl ValueError)"

definition py_int :: "string \<Rightarrow> pyexn + int" where
  "py_int s =
     (if s \<noteq> [] \<and> list_all is_digit s \<and> length s \<le> max_str_digits
      then Inr (int (digits_value s))
      else Inl ValueError)"

section \<open>The data model\<close>

record HousingCriteria =
  location :: string
  max_price :: int
  min_bedrooms :: int
  property_type :: string
  min_size_m2 :: "int option"
  max_size_m2 :: "int option"
  furnished :: "bool option"
  immediate_availability :: "bool option"
  pets_allowed :: "bool option"

text \<open>The fields of \<open>HousingSearchAgent\<close> that the search reads and writes.\<close>

record agent =
  base_url :: string
  last_criteria :: "HousingCriteria option"
  last_url :: "string option"

text \<open>\<open>__init__\<close>\<close>

definition init_agent :: agent where
  "init_agent =
     \<lparr>base_url = ''https://www.boligportal.dk/en'', last_criteria = None, last_url = None\<rparr>"

type_synonym listing = "(string \<times> pyval) list"

section \<open>\<open>construct_search_url\<close>\<close>

definition url_location :: "string \<Rightarrow> string" where
  "url_location loc = replace_char CHR '' '' CHR ''-'' (py_lower loc)"

text \<open>
  Lines 165 and 166: the path, or the \<open>ValueError\<close> of writing the number of rooms.
\<close>

definition search_path :: "agent \<Rightarrow> HousingCriteria \<Rightarrow> pyexn + string" where
  "search_path self criteria =
     (case py_str_int (min_bedrooms criteria) of
        Inl e \<Rightarrow> Inl e
      | Inr rooms \<Rightarrow>
          Inr ((base_url self @ ''/rental-properties/'' @ url_location (location criteria))
               @ ''/'' @ rooms @ ''-rooms''))"

text \<open>\<open>if criteria.min_size_m2: params.append(...)\<close>: the test is on the truth value.\<close>

definition size_params :: "HousingCriteria \<Rightarrow> pyexn + string list" where
  "size_params criteria =
     (case min_size_m2 criteria of
        None \<Rightarrow> Inr []
      | Some n \<Rightarrow>
          if n \<noteq> 0
          then (case py_str_int n of Inl e \<Rightarrow> Inl e | Inr t \<Rightarrow> Inr [''min_size_m2='' @ t])
          else Inr [])"

text \<open>The list \<open>params\<close> after the three appends.\<close>

definition search_params :: "HousingCriteria \<Rightarrow> pyexn + string list" where
  "search_params criteria =
     (case py_str_int (max_price criteria) of
        Inl e \<Rightarrow> Inl e
      | Inr price \<Rightarrow>
          (case size_params criteria of
             Inl e \<Rightarrow> Inl e
           | Inr sizes \<Rightarrow>
               Inr ([''max_monthly_rent='' @ price]
                    @ (if property_type criteria \<noteq> ''all''
                       then [''housing_type='' @ property_type criteria] else [])
                    @ sizes)))"

text \<open>\<open>if params: url += "/?" + "&".join(params)\<close>\<close>

definition attach_params :: "string \<Rightarrow> string list \<Rightarrow> string" where
  "attach_params url params = (if params \<noteq> [] then url @ ''/?'' @ join ''&'' params else url)"

definition construct_search_url :: "agent \<Rightarrow> HousingCriteria \<Rightarrow> pyexn + string" where
  "construct_search_url self criteria =
     (case search_path self criteria of
        Inl e \<Rightarrow> Inl e
      | Inr url \<Rightarrow>
          (case search_params criteria of
             Inl e \<Rightarrow> Inl e
           | Inr params \<Rightarrow> Inr (attach_params url params)))"

section \<open>\<open>_matches_criteria\<close>\<close>

text \<open>The body of the \<open>try\<close>: \<open>Inl\<close> is an exception raised in it.\<close>

definition matches_body :: "listing \<Rightarrow> HousingCriteria \<Rightarrow> pyexn + bool" where
  "matches_body listing criteria =
     (let price = dict_get listing ''price_dkk'' PNone;
          bedrooms = dict_get listing ''bedrooms'' PNone;
          loc = dict_get listing ''location'' PNone
      in if \<not> (truthy price \<and> truthy bedrooms \<and> truthy loc) then Inr False
         else (case py_gt_int price (max_price criteria) of
                 Inl e \<Rightarrow> Inl e
               | Inr True \<Rightarrow> Inr False
               | Inr False \<Rightarrow>
                   (case py_lt_int bedrooms (min_bedrooms criteria) of
                      Inl e \<Rightarrow> Inl e
                    | Inr True \<Rightarrow> Inr False
                    | Inr False \<Rightarrow> Inr True)))"

text \<open>\<open>except Exception: return False\<close>\<close>

definition matches_criteria :: "listing \<Rightarrow> HousingCriteria \<Rightarrow> bool" where
  "matches_criteria listing criteria =
     (case matches_body listing criteria of Inl e \<Rightarrow> False | Inr b \<Rightarrow> b)"

section \<open>\<open>_process_housing_results\<close>\<close>

text \<open>What \<open>for link in links\<close> iterates over.\<close>

fun py_iter :: "pyval \<Rightarrow> pyexn + pyval list" where
  "py_iter (PList xs) = Inr xs"
| "py_iter (PStr s) = Inr (map (\<lambda>c. PStr [c]) s)"
| "py_iter (PDict d) = Inr (map (\<lambda>kv. PStr (fst kv)) d)"
| "py_iter v = Inl TypeError"

text \<open>\<open>needle in link\<close> for a string \<open>needle\<close>: substring, element or key.\<close>

fun py_contains :: "string \<Rightarrow> pyval \<Rightarrow> pyexn + bool" where
  "py_contains needle (PStr s) = Inr (str_in needle s)"
| "py_contains needle (PList xs) = Inr (List.member xs (PStr needle))"
| "py_contains needle (PDict d) = Inr (List.member (map fst d) needle)"
| "py_contains needle v = Inl TypeError"

text \<open>\<open>next((link for link in ... if '/rental-properties/' in link), None)\<close>\<close>

fun first_listing_link :: "pyval list \<Rightarrow> pyexn + pyval" where
  "first_listing_link [] = Inr PNone"
| "first_listing_link (link # rest) =
     (case py_contains ''/rental-properties/'' link of
        Inl e \<Rightarrow> Inl e
      | Inr True \<Rightarrow> Inr link
      | Inr False \<Rightarrow> first_listing_link rest)"

definition find_listing_url :: "pyval \<Rightarrow> pyexn + pyval" where
  "find_listing_url links =
     (case py_iter links of Inl e \<Rightarrow> Inl e | Inr ls \<Rightarrow> first_listing_link ls)"

text \<open>
  Lines 247 and 248: the value of the local variable \<open>listing_url\<close> after
  \<open>if listing_url and not listing_url.startswith('http')\<close>.
\<close>

definition prefixed_url :: "agent \<Rightarrow> pyval \<Rightarrow> pyexn + pyval" where
  "prefixed_url self listing_url =
     (if \<not> truthy listing_url then Inr listing_url
      else (case listing_url of
              PStr s \<Rightarrow>
                Inr (if \<not> startswith s ''http'' then PStr (base_url self @ s) else listing_url)
            | _ \<Rightarrow> Inl AttributeError))"

text \<open>\<open>price\<close>, \<open>rooms\<close> and \<open>size\<close> of lines 223 to 232 (\<open>size\<close> is called \<open>area\<close> below).\<close>

definition parse_price :: "string \<Rightarrow> pyval" where
  "parse_price text =
     (case price_search text of
        None \<Rightarrow> PNone
      | Some g \<Rightarrow>
          (case py_float (remove_char CHR ''.'' (remove_char CHR '','' g)) of
             Inl e \<Rightarrow> PNone
           | Inr f \<Rightarrow> PFloat f))"

definition parse_rooms :: "string \<Rightarrow> pyexn + pyval" where
  "parse_rooms text =
     (case room_search text of
        None \<Rightarrow> Inr PNone
      | Some g \<Rightarrow> (case py_int g of Inl e \<Rightarrow> Inl e | Inr i \<Rightarrow> Inr (PInt i)))"

definition parse_size :: "string \<Rightarrow> pyexn + pyval" where
  "parse_size text =
     (case size_search text of
        None \<Rightarrow> Inr PNone
      | Some g \<Rightarrow> (case py_float g of Inl e \<Rightarrow> Inl e | Inr f \<Rightarrow> Inr (PFloat f)))"

text \<open>
  The body of the loop up to line 248, for one item: \<open>Inl\<close> is an exception, \<open>Inr None\<close>
  the \<open>continue\<close> of an empty text, and \<open>Inr (Some (listing, url))\<close> the dictionary
  \<open>listing\<close> together with the final value of the local variable \<open>listing_url\<close>.
\<close>

definition extract_listing ::
  "agent \<Rightarrow> HousingCriteria \<Rightarrow> pyval \<Rightarrow> pyexn + (listing \<times> pyval) option" where
  "extract_listing self criteria item =
     (case item of
        PDict d \<Rightarrow>
          (let text_content = dict_get d ''text'' (PStr []);
               links = dict_get d ''links'' (PList [])
           in if \<not> truthy text_content then Inr None
              else (case text_content of
                      PStr text \<Rightarrow>
                        (let price = parse_price text
                         in case parse_rooms text of
                              Inl e \<Rightarrow> Inl e
                            | Inr rooms \<Rightarrow>
                           (case parse_size text of
                              Inl e \<Rightarrow> Inl e
                            | Inr area \<Rightarrow>
                           (case find_listing_url links of
                              Inl e \<Rightarrow> Inl e
                            | Inr listing_url \<Rightarrow>
                           (let listing =
                                  [(''title'', PStr (first_line text)),
                                   (''price_dkk'', price),
                                   (''location'', PStr (location criteria)),
                                   (''size_m2'', area),
                                   (''bedrooms'', rooms),
                                   (''property_type'', PStr ''apartment''),
                                   (''listing_url'', listing_url)]
                            in case prefixed_url self listing_url of
                                 Inl e \<Rightarrow> Inl e
                               | Inr url \<Rightarrow> Inr (Some (listing, url))))))
                    | _ \<Rightarrow> Inl TypeError))
      | _ \<Rightarrow> Inl AttributeError)"

text \<open>
  One round of the loop: the listing it appends, if any. An exception is caught by
  \<open>except Exception: continue\<close>; the local variable \<open>listing_url\<close> is not used again.
\<close>

definition process_item :: "agent \<Rightarrow> HousingCriteria \<Rightarrow> pyval \<Rightarrow> listing option" where
  "process_item self criteria item =
     (case extract_listing self criteria item of
        Inl e \<Rightarrow> None
      | Inr None \<Rightarrow> None
      | Inr (Some (listing, url)) \<Rightarrow>
          if matches_criteria listing criteria then Some listing else None)"

fun process_loop ::
  "agent \<Rightarrow> HousingCriteria \<Rightarrow> pyval list \<Rightarrow> listing list \<Rightarrow> listing list" where
  "process_loop self criteria [] listings = listings"
| "process_loop self criteria (item # rest) listings =
     (case process_item self criteria item of
        None \<Rightarrow> process_loop self criteria rest listings
      | Some listing \<Rightarrow> process_loop self criteria rest (listings @ [listing]))"

definition process_housing_results ::
  "agent \<Rightarrow> pyval list \<Rightarrow> HousingCriteria \<Rightarrow> listing list" where
  "process_housing_results self crawl_data criteria = process_loop self criteria crawl_data []"

section \<open>\<open>_construct_response\<close>\<close>

text \<open>
  What the interpreter prints is taken as given: \<open>repr_of\<close> is \<open>repr\<close> (used for floats,
  lists and dictionaries, whose text is the interpreter's shortest round-trip printing and
  quoting), \<open>format_f0\<close> is \<open>format(v, ',.0f')\<close>, which raises on a value that is no number.
\<close>

record printer =
  repr_of :: "pyval \<Rightarrow> pyexn + string"
  format_f0 :: "pyval \<Rightarrow> pyexn + string"

text \<open>\<open>f"{v}"\<close>\<close>

fun py_str :: "printer \<Rightarrow> pyval \<Rightarrow> pyexn + string" where
  "py_str P (PStr s) = Inr s"
| "py_str P PNone = Inr ''None''"
| "py_str P (PBool b) = Inr (if b then ''True'' else ''False'')"
| "py_str P (PInt i) = py_str_int i"
| "py_str P v = repr_of P v"

text \<open>\<open>f"{self.last_url}"\<close>\<close>

definition url_text :: "string option \<Rightarrow> string" where
  "url_text u = (case u of None \<Rightarrow> ''None'' | Some s \<Rightarrow> s)"

text \<open>
  The lines of one listing. The index \<open>i\<close> of \<open>enumerate\<close> and the length of the list are
  machine-sized, so their decimal text is always written.
\<close>

definition title_line :: "printer \<Rightarrow> nat \<Rightarrow> listing \<Rightarrow> pyexn + string" where
  "title_line P i listing =
     (case py_str P (dict_get listing ''title'' (PStr ''Unlisted Property'')) of
        Inl e \<Rightarrow> Inl e
      | Inr t \<Rightarrow> Inr (str_nat i @ ''. '' @ t @ [newline]))"

definition price_line :: "printer \<Rightarrow> listing \<Rightarrow> pyexn + string" where
  "price_line P listing =
     (let v = dict_get listing ''price_dkk'' PNone
      in if truthy v
         then (case format_f0 P v of
                 Inl e \<Rightarrow> Inl e
               | Inr s \<Rightarrow> Inr (''   Price: '' @ s @ '' DKK/month'' @ [newline]))
         else Inr [])"

definition size_line :: "printer \<Rightarrow> listing \<Rightarrow> pyexn + string" where
  "size_line P listing =
     (let v = dict_get listing ''size_m2'' PNone
      in if truthy v
         then (case py_str P v of
                 Inl e \<Rightarrow> Inl e
               | Inr s \<Rightarrow> Inr (''   Size: '' @ s @ '' m'' @ [superscript_two, newline]))
         else Inr [])"

definition rooms_line :: "printer \<Rightarrow> listing \<Rightarrow> pyexn + string" where
  "rooms_line P listing =
     (let v = dict_get listing ''bedrooms'' PNone
      in if truthy v
         then (case py_str P v of
                 Inl e \<Rightarrow> Inl e
               | Inr s \<Rightarrow> Inr (''   Rooms: '' @ s @ [newline]))
         else Inr [])"

definition link_line :: "printer \<Rightarrow> listing \<Rightarrow> pyexn + string" where
  "link_line P listing =
     (let v = dict_get listing ''listing_url'' PNone
      in if truthy v
         then (case py_str P v of
                 Inl e \<Rightarrow> Inl e
               | Inr s \<Rightarrow> Inr (''   Link: '' @ s @ [newline]))
         else Inr [])"

text \<open>What one round of the loop appends to \<open>response\<close> for the listing numbered \<open>i\<close>.\<close>

definition listing_block :: "printer \<Rightarrow> nat \<Rightarrow> listing \<Rightarrow> pyexn + string" where
  "listing_block P i listing =
     (case title_line P i listing of Inl e \<Rightarrow> Inl e | Inr l1 \<Rightarrow>
     (case price_line P listing of Inl e \<Rightarrow> Inl e | Inr l2 \<Rightarrow>
     (case size_line P listing of Inl e \<Rightarrow> Inl e | Inr l3 \<Rightarrow>
     (case rooms_line P listing of Inl e \<Rightarrow> Inl e | Inr l4 \<Rightarrow>
     (case link_line P listing of Inl e \<Rightarrow> Inl e | Inr l5 \<Rightarrow>
        Inr (l1 @ l2 @ l3 @ l4 @ l5 @ [newline]))))))"

fun response_loop :: "printer \<Rightarrow> nat \<Rightarrow> listing list \<Rightarrow> string \<Rightarrow> pyexn + string" where
  "response_loop P i [] response = Inr response"
| "response_loop P i (listing # rest) response =
     (case listing_block P i listing of
        Inl e \<Rightarrow> Inl e
      | Inr block \<Rightarrow> response_loop P (Suc i) rest (response @ block))"

definition no_results_text :: "agent \<Rightarrow> string" where
  "no_results_text self =
     ''No available properties found matching your criteria. ''
     @ ''You can check for new listings at:'' @ [newline] @ url_text (last_url self)"

definition found_header :: "listing list \<Rightarrow> string" where
  "found_header listings =
     ''Found '' @ str_nat (length listings) @ '' matching properties:'' @ [newline, newline]"

definition construct_response :: "printer \<Rightarrow> agent \<Rightarrow> listing list \<Rightarrow> pyexn + string" where
  "construct_response P self listings =
     (if listings = [] then Inr (no_results_text self)
      else response_loop P 1 listings (found_header listings))"

section \<open>\<open>search_housing\<close>\<close>

text \<open>
  The two services are parameters. \<open>llm query\<close> is the outcome of the completion call,
  of decoding its JSON and of building the \<open>HousingCriteria\<close>; \<open>crawl url\<close> is the outcome
  of \<open>_perform_crawl\<close>: the list under \<open>data\<close>, or the exception it raises again.
\<close>

definition parse_query ::
  "(string \<Rightarrow> pyexn + HousingCriteria) \<Rightarrow> string \<Rightarrow> pyexn + HousingCriteria" where
  "parse_query llm query = (case llm query of Inl e \<Rightarrow> Inl ValueError | Inr c \<Rightarrow> Inr c)"

text \<open>The dictionary \<open>_execute_search\<close> returns, without its time stamp.\<close>

datatype search_result =
    SearchSuccess HousingCriteria "listing list" string
  | SearchError pyexn HousingCriteria string

text \<open>
  \<open>_execute_search\<close>: building the URL stands before the \<open>try\<close>, so its exception leaves
  the function (\<open>Inl\<close>) with \<open>last_url\<close> as it was; a failing crawl is caught and becomes
  the error dictionary.
\<close>

definition execute_search ::
  "(string \<Rightarrow> pyexn + pyval list) \<Rightarrow> agent \<Rightarrow> HousingCriteria
     \<Rightarrow> pyexn + (search_result \<times> agent)" where
  "execute_search crawl self criteria =
     (case construct_search_url self criteria of
        Inl e \<Rightarrow> Inl e
      | Inr search_url \<Rightarrow>
          (let self' = self\<lparr>last_url := Some search_url\<rparr>
           in case crawl search_url of
                Inl e \<Rightarrow> Inr (SearchError e criteria search_url, self')
              | Inr crawl_status \<Rightarrow>
                  Inr (SearchSuccess criteria
                         (process_housing_results self' crawl_status criteria) search_url,
                       self')))"

text \<open>\<open>search_results.get("listings", [])\<close>\<close>

fun result_listings :: "search_result \<Rightarrow> listing list" where
  "result_listings (SearchSuccess criteria listings url) = listings"
| "result_listings (SearchError e criteria url) = []"

definition apology_text :: "agent \<Rightarrow> string" where
  "apology_text self =
     ''Sorry, I encountered an error. You can try searching directly at: ''
     @ url_text (last_url self)"

definition search_housing ::
  "printer \<Rightarrow> (string \<Rightarrow> pyexn + HousingCriteria) \<Rightarrow> (string \<Rightarrow> pyexn + pyval list)
     \<Rightarrow> agent \<Rightarrow> string \<Rightarrow> string \<times> agent" where
  "search_housing P llm crawl self query =
     (case parse_query llm query of
        Inl e \<Rightarrow> (apology_text self, self)
      | Inr criteria \<Rightarrow>
          (let self1 = self\<lparr>last_criteria := Some criteria\<rparr>
           in case execute_search crawl self1 criteria of
                Inl e \<Rightarrow> (apology_text self1, self1)
              | Inr (search_results, self2) \<Rightarrow>
                  (case construct_response P self2 (result_listings search_results) of
                     Inl e \<Rightarrow> (apology_text self2, self2)
                   | Inr response \<Rightarrow> (response, self2))))"

section \<open>Example inputs\<close>

definition example_criteria :: HousingCriteria where
  "example_criteria =
     \<lparr>location = ''Copenhagen'', max_price = 19000, min_bedrooms = 2, property_type = ''all'',
      min_size_m2 = None, max_size_m2 = None, furnished = None,
      immediate_availability = None, pets_allowed = None\<rparr>"

definition studio_criteria :: HousingCriteria where
  "studio_criteria = example_criteria\<lparr>min_bedrooms := 0\<rparr>"

definition picky_criteria :: HousingCriteria where
  "picky_criteria =
     example_criteria\<lparr>property_type := ''house'', min_size_m2 := Some 50,
       max_size_m2 := Some 90, furnished := Some True, immediate_availability := Some True,
       pets_allowed := Some False\<rparr>"

definition example_listing :: "pyval \<Rightarrow> pyval \<Rightarrow> pyval \<Rightarrow> listing" where
  "example_listing price rooms loc =
     [(''price_dkk'', price), (''bedrooms'', rooms), (''location'', loc)]"

text \<open>
  A printer for the examples: it prints a finite float with a whole value as the
  interpreter does while the value is below \<open>10 ^ 16\<close>, and knows nothing else.
\<close>

fun commas :: "string \<Rightarrow> string" where
  "commas s = (if length s \<le> 3 then s
               else commas (take (length s - 3) s) @ '','' @ drop (length s - 3) s)"

definition example_printer :: printer where
  "example_printer =
     \<lparr>repr_of = (\<lambda>v. case v of PFloat (Finite q) \<Rightarrow> Inr (str_int \<lfloor>q\<rfloor> @ ''.0'')
                             | _ \<Rightarrow> Inr ''...''),
      format_f0 = (\<lambda>v. case v of PFloat (Finite q) \<Rightarrow> Inr (commas (str_int \<lfloor>q\<rfloor>))
                               | _ \<Rightarrow> Inl TypeError)\<rparr>"

definition example_llm :: "string \<Rightarrow> pyexn + HousingCriteria" where
  "example_llm query =
     (if query = ''2 rooms in Copenhagen under 19000'' then Inr example_criteria
      else Inl ValueError)"

definition example_crawl :: "string \<Rightarrow> pyexn + pyval list" where
  "example_crawl url = Inr []"



section \<open>The criteria matcher\<close>

lemma dict_get_example_listing:
  "dict_get (example_listing p r l) ''price_dkk'' d = p"
  "dict_get (example_listing p r l) ''bedrooms'' d = r"
  "dict_get (example_listing p r l) ''location'' d = l"
  by (simp_all add: dict_get_def example_listing_def)

text \<open>
  Claim C3. A listing whose price, bedrooms or location is unset (the key is absent or
  holds \<open>None\<close>, so that \<open>get\<close> returns \<open>None\<close>) is rejected, whatever the criteria.
\<close>

theorem matcher_rejects_missing:
  "dict_get listing ''price_dkk'' PNone = PNone \<or> dict_get listing ''bedrooms'' PNone = PNone
     \<or> dict_get listing ''location'' PNone = PNone
   \<Longrightarrow> \<not> matches_criteria listing criteria"
  by (auto simp: matches_criteria_def matches_body_def Let_def)

theorem matcher_rejects_missing_witness:
  "dict_get [(''price_dkk'', PFloat (Finite 18000)), (''location'', PStr ''Copenhagen'')]
     ''bedrooms'' PNone = PNone
   \<and> \<not> matches_criteria
         [(''price_dkk'', PFloat (Finite 18000)), (''location'', PStr ''Copenhagen'')]
         example_criteria"
proof -
  have h: "dict_get [(''price_dkk'', PFloat (Finite 18000)), (''location'', PStr ''Copenhagen'')]
             ''bedrooms'' PNone = PNone"
    by (simp add: dict_get_def)
  from h matcher_rejects_missing [of _ example_criteria] show ?thesis by blast
qed

text \<open>
  Claim C2, as stated, fails at zero: a listing with price 5000, 0 bedrooms and a
  location, against criteria with ceiling 19000 and minimum 0, has its price below the
  ceiling and its bedrooms at the minimum, and is rejected, because \<open>all\<close> takes the
  value 0 for a missing one.
\<close>

theorem matcher_zero_rooms_counterexample:
  "\<not> matches_criteria
        (example_listing (PFloat (Finite 5000)) (PInt 0) (PStr ''Copenhagen'')) studio_criteria
   \<and> \<not> float_gt_int (Finite 5000) (max_price studio_criteria)
   \<and> \<not> (0 < min_bedrooms studio_criteria)"
  by (simp add: matches_criteria_def matches_body_def dict_get_example_listing
      studio_criteria_def example_criteria_def)

text \<open>
  Claim C2, amended. For a listing whose price is a float or an int, whose bedrooms is an
  int and whose location is a string: the matcher rejects it if the price is zero, the
  bedrooms are zero or the location is empty; it rejects it if the price is greater than
  the ceiling, and if the bedrooms are fewer than the minimum; otherwise it accepts it, so
  the bounds themselves are accepted. Greater is the exact comparison of the float with the
  int: an infinity is greater than every int, a NaN is greater than none.
\<close>

theorem matcher_decides:
  assumes "dict_get listing ''bedrooms'' PNone = PInt b"
    and "dict_get listing ''location'' PNone = PStr loc"
  shows "(dict_get listing ''price_dkk'' PNone = PFloat p \<longrightarrow>
            matches_criteria listing criteria =
              (p \<noteq> Finite 0 \<and> b \<noteq> 0 \<and> loc \<noteq> []
               \<and> \<not> float_gt_int p (max_price criteria) \<and> \<not> b < min_bedrooms criteria))
    \<and> (dict_get listing ''price_dkk'' PNone = PInt i \<longrightarrow>
            matches_criteria listing criteria =
              (i \<noteq> 0 \<and> b \<noteq> 0 \<and> loc \<noteq> []
               \<and> \<not> max_price criteria < i \<and> \<not> b < min_bedrooms criteria))
    \<and> float_gt_int (Finite q) m = (of_int m < q)
    \<and> float_gt_int PosInf m \<and> \<not> float_gt_int NegInf m \<and> \<not> float_gt_int NaN m"
proof -
  have f: "matches_criteria listing criteria =
              (p \<noteq> Finite 0 \<and> b \<noteq> 0 \<and> loc \<noteq> []
               \<and> \<not> float_gt_int p (max_price criteria) \<and> \<not> b < min_bedrooms criteria)"
    if "dict_get listing ''price_dkk'' PNone = PFloat p"
    unfolding matches_criteria_def matches_body_def Let_def assms that
    by (cases "float_gt_int p (max_price criteria)"; cases "b < min_bedrooms criteria"; simp)
  have g: "matches_criteria listing criteria =
              (i \<noteq> 0 \<and> b \<noteq> 0 \<and> loc \<noteq> []
               \<and> \<not> max_price criteria < i \<and> \<not> b < min_bedrooms criteria)"
    if "dict_get listing ''price_dkk'' PNone = PInt i"
    unfolding matches_criteria_def matches_body_def Let_def assms that
    by (cases "max_price criteria < i"; cases "b < min_bedrooms criteria"; simp)
  from f g show ?thesis by simp
qed

theorem matcher_decides_witness:
  "matches_criteria
     (example_listing (PFloat (Finite 18000)) (PInt 3) (PStr ''Copenhagen'')) example_criteria
   \<and> \<not> matches_criteria
         (example_listing (PFloat (Finite 19500)) (PInt 2) (PStr ''Copenhagen''))
         example_criteria
   \<and> matches_criteria
       (example_listing (PFloat (Finite 19000)) (PInt 2) (PStr ''Copenhagen''))
       example_criteria
   \<and> matches_criteria
       (example_listing (PInt 19000) (PInt 2) (PStr ''Copenhagen'')) example_criteria
   \<and> \<not> matches_criteria
         (example_listing (PInt 19001) (PInt 2) (PStr ''Copenhagen'')) example_criteria"
proof -
  have a: "matches_criteria (example_listing (PFloat p) (PInt b) (PStr ''Copenhagen''))
             example_criteria =
           (p \<noteq> Finite 0 \<and> b \<noteq> 0 \<and> ''Copenhagen'' \<noteq> []
            \<and> \<not> float_gt_int p (max_price example_criteria)
            \<and> \<not> b < min_bedrooms example_criteria)" for p b
    using matcher_decides
      [where listing = "example_listing (PFloat p) (PInt b) (PStr ''Copenhagen'')"
         and b = b and loc = "''Copenhagen''" and p = p and criteria = example_criteria]
    by (simp add: dict_get_example_listing)
  have b: "matches_criteria (example_listing (PInt i) (PInt b) (PStr ''Copenhagen''))
             example_criteria =
           (i \<noteq> 0 \<and> b \<noteq> 0 \<and> ''Copenhagen'' \<noteq> []
            \<and> \<not> max_price example_criteria < i
            \<and> \<not> b < min_bedrooms example_criteria)" for i b
    using matcher_decides
      [where listing = "example_listing (PInt i) (PInt b) (PStr ''Copenhagen'')"
         and b = b and loc = "''Copenhagen''" and i = i and criteria = example_criteria]
    by (simp add: dict_get_example_listing)
  have c: "max_price example_criteria = 19000" "min_bedrooms example_criteria = 2"
    by (simp_all add: example_criteria_def)
  show ?thesis by (simp add: a b c)
qed


text \<open>
  Claim C8. Two criteria with the same price ceiling and the same minimum of bedrooms give
  the same verdict on every listing, whatever their other fields are (the location of the
  criteria is not read either).
\<close>

theorem matcher_ignores_optional:
  assumes a: "max_price c1 = max_price c2" and b: "min_bedrooms c1 = min_bedrooms c2"
  shows "matches_criteria listing c1 = matches_criteria listing c2"
  unfolding matches_criteria_def matches_body_def a b by (rule refl)

theorem matcher_ignores_optional_witness:
  "matches_criteria
     (example_listing (PFloat (Finite 18000)) (PInt 3) (PStr ''Copenhagen'')) example_criteria
   = matches_criteria
       (example_listing (PFloat (Finite 18000)) (PInt 3) (PStr ''Copenhagen'')) picky_criteria
   \<and> property_type example_criteria \<noteq> property_type picky_criteria
   \<and> min_size_m2 example_criteria \<noteq> min_size_m2 picky_criteria
   \<and> pets_allowed example_criteria \<noteq> pets_allowed picky_criteria"
proof -
  have a: "max_price example_criteria = max_price picky_criteria"
    by (simp add: picky_criteria_def)
  have b: "min_bedrooms example_criteria = min_bedrooms picky_criteria"
    by (simp add: picky_criteria_def)
  from matcher_ignores_optional [OF a b] show ?thesis
    by (simp add: picky_criteria_def example_criteria_def)
qed

section \<open>The search URL\<close>

lemma join_cons: "join sep (p # ps) = p @ concat (map (\<lambda>q. sep @ q) ps)"
  by (induction ps arbitrary: p) simp_all












lemma py_str_int_small:
  "length (str_nat (nat \<bar>i\<bar>)) \<le> max_str_digits \<Longrightarrow> py_str_int i = Inr (str_int i)"
  by (simp add: py_str_int_def del: str_nat.simps)








lemma example_path:
  "search_path init_agent example_criteria =
     Inr ''https://www.boligportal.dk/en/rental-properties/copenhagen/2-rooms''"
  by (simp add: search_path_def py_str_int_def str_int_def max_str_digits_def digit_char_def
      url_location_def replace_char_def py_lower_def py_lower_char_def lower_code_def
      example_criteria_def init_agent_def char_of_eq_iff)

lemma example_params:
  "search_params example_criteria = Inr [''max_monthly_rent=19000'']"
  by (simp add: search_params_def size_params_def py_str_int_def str_int_def
      max_str_digits_def digit_char_def example_criteria_def char_of_eq_iff)

text \<open>
  Claim C7, as stated, fails by one character: the query string is not attached to the
  path, a slash stands between them.
\<close>

theorem query_string_slash_counterexample:
  "search_path init_agent example_criteria =
     Inr ''https://www.boligportal.dk/en/rental-properties/copenhagen/2-rooms''
   \<and> search_params example_criteria = Inr [''max_monthly_rent=19000'']
   \<and> construct_search_url init_agent example_criteria \<noteq>
       Inr (''https://www.boligportal.dk/en/rental-properties/copenhagen/2-rooms''
            @ ''?'' @ join ''&'' [''max_monthly_rent=19000''])"
  by (simp add: construct_search_url_def example_path example_params attach_params_def)

text \<open>
  Claim C7, amended. When the path and the parameters are written, the URL is the path,
  the two characters \<open>/?\<close> and the parameters joined with \<open>&\<close>: the first parameter
  stands right after the question mark and each further one after an ampersand. The list
  of parameters is never empty; an empty list would leave the path as it is.
\<close>

theorem query_string_attached:
  assumes "search_path self c = Inr path" and "search_params c = Inr params"
  shows "construct_search_url self c = Inr (path @ ''/?'' @ join ''&'' params)
    \<and> params \<noteq> []
    \<and> join ''&'' params = hd params @ concat (map (\<lambda>q. ''&'' @ q) (tl params))
    \<and> attach_params path [] = path"
proof -
  from assms(2) have ne: "params \<noteq> []"
    by (auto simp: search_params_def split: sum.splits)
  then obtain p ps where ps: "params = p # ps" by (cases params) auto
  from assms ne show ?thesis
    by (simp add: construct_search_url_def attach_params_def ps join_cons)
qed

theorem query_string_attached_witness:
  "search_path init_agent example_criteria =
     Inr ''https://www.boligportal.dk/en/rental-properties/copenhagen/2-rooms''
   \<and> search_params example_criteria = Inr [''max_monthly_rent=19000'']
   \<and> construct_search_url init_agent example_criteria =
       Inr ''https://www.boligportal.dk/en/rental-properties/copenhagen/2-rooms/?max_monthly_rent=19000''"
proof -
  from query_string_attached [OF example_path example_params]
  have "construct_search_url init_agent example_criteria =
          Inr (''https://www.boligportal.dk/en/rental-properties/copenhagen/2-rooms''
               @ ''/?'' @ join ''&'' [''max_monthly_rent=19000''])"
    by blast
  with example_path example_params show ?thesis by simp
qed

section \<open>The entry point\<close>

lemma search_path_last_criteria:
  "search_path (self\<lparr>last_criteria := x\<rparr>) c = search_path self c"
  by (cases "py_str_int (min_bedrooms c)") (simp_all add: search_path_def)

lemma construct_search_url_last_criteria [simp]:
  "construct_search_url (self\<lparr>last_criteria := x\<rparr>) c = construct_search_url self c"
  by (simp add: construct_search_url_def search_path_last_criteria)

lemma search_housing_parse_failure:
  "llm query = Inl e \<Longrightarrow> search_housing P llm crawl self query = (apology_text self, self)"
  by (simp add: search_housing_def parse_query_def)

lemma search_housing_last_url:
  "llm query = Inr c \<Longrightarrow> construct_search_url self c = Inr url \<Longrightarrow>
   last_url (snd (search_housing P llm crawl self query)) = Some url"
  by (simp add: search_housing_def parse_query_def execute_search_def Let_def
      split: sum.splits prod.splits)

lemma search_housing_url_failure:
  "llm query = Inr c \<Longrightarrow> construct_search_url self c = Inl x \<Longrightarrow>
   search_housing P llm crawl self query =
     (apology_text self, self\<lparr>last_criteria := Some c\<rparr>)"
  by (simp add: search_housing_def parse_query_def execute_search_def Let_def apology_text_def)

lemma example_url:
  "construct_search_url init_agent example_criteria =
     Inr ''https://www.boligportal.dk/en/rental-properties/copenhagen/2-rooms/?max_monthly_rent=19000''"
  by (simp add: construct_search_url_def example_path example_params attach_params_def)

text \<open>
  Claim C9. When the query cannot be parsed, the answer is the apology followed by the
  last URL as it was before the call, and the agent is unchanged; for a fresh agent that
  text is \<open>None\<close>; after an earlier search that resolved the URL \<open>url\<close> it is \<open>url\<close>. An
  earlier search whose URL could not be built resolves none: it answers with the apology
  and the URL before it.
\<close>

theorem parse_failure_reports_previous_url:
  assumes "llm bad = Inl e"
  shows "search_housing P llm crawl self bad =
           (''Sorry, I encountered an error. You can try searching directly at: ''
              @ url_text (last_url self), self)
    \<and> fst (search_housing P llm crawl init_agent bad) =
        ''Sorry, I encountered an error. You can try searching directly at: None''
    \<and> (llm good = Inr c \<and> construct_search_url self c = Inr url \<longrightarrow>
        fst (search_housing P llm crawl (snd (search_housing P llm crawl self good)) bad) =
          ''Sorry, I encountered an error. You can try searching directly at: '' @ url)
    \<and> (llm good = Inr c \<and> construct_search_url self c = Inl x \<longrightarrow>
        search_housing P llm crawl self good =
          (''Sorry, I encountered an error. You can try searching directly at: ''
             @ url_text (last_url self), self\<lparr>last_criteria := Some c\<rparr>))"
  using assms
  by (simp add: search_housing_parse_failure apology_text_def search_housing_last_url
      search_housing_url_failure url_text_def init_agent_def)

theorem parse_failure_reports_previous_url_witness:
  "example_llm ''somewhere nice'' = Inl ValueError
   \<and> example_llm ''2 rooms in Copenhagen under 19000'' = Inr example_criteria
   \<and> fst (search_housing example_printer example_llm example_crawl init_agent
            ''somewhere nice'') =
        ''Sorry, I encountered an error. You can try searching directly at: None''
   \<and> fst (search_housing example_printer example_llm example_crawl
            (snd (search_housing example_printer example_llm example_crawl init_agent
                    ''2 rooms in Copenhagen under 19000''))
            ''somewhere nice'') =
        ''Sorry, I encountered an error. You can try searching directly at: ''
          @ ''https://www.boligportal.dk/en/rental-properties/copenhagen/2-rooms/?max_monthly_rent=19000''"
proof -
  have a: "example_llm ''somewhere nice'' = Inl ValueError"
    by (simp add: example_llm_def)
  have b: "example_llm ''2 rooms in Copenhagen under 19000'' = Inr example_criteria"
    by (simp add: example_llm_def)
  from parse_failure_reports_previous_url
         [where llm = example_llm and bad = "''somewhere nice''" and e = ValueError
            and P = example_printer and crawl = example_crawl and self = init_agent
            and good = "''2 rooms in Copenhagen under 19000''" and c = example_criteria
            and url = "''https://www.boligportal.dk/en/rental-properties/copenhagen/2-rooms/?max_monthly_rent=19000''",
          OF a]
       a b example_url
  show ?thesis by blast
qed

end
